theory Spec2Isabelle
  imports Main "HOL-Library.Sublist"
begin

section \<open>JavaScript values handled by the Checklist tool\<close>

text \<open>
  The tool of \<^verbatim>\<open>src/index.js\<close> keeps its whole model in the DOM: one element per
  checklist item, whose text field holds the markup, whose class list holds the checked
  flag and whose \<^verbatim>\<open>data-level\<close> attribute holds the indentation level as a string.
  Levels are JavaScript numbers; they are modelled as mathematical integers, together
  with the two other values the code can meet in their place (\<^verbatim>\<open>undefined\<close> for an
  absent field and \<^verbatim>\<open>NaN\<close> for an attribute that does not parse). Strings are lists
  of characters.
\<close>

datatype jsval = Undefined | NaN | Num int

datatype js_error = TypeError

text \<open>ToBoolean on these values: \<^verbatim>\<open>undefined\<close>, \<^verbatim>\<open>NaN\<close> and \<^verbatim>\<open>0\<close> are falsy.\<close>

fun truthy :: "jsval \<Rightarrow> bool" where
  "truthy Undefined = False"
| "truthy NaN = False"
| "truthy (Num n) = (n \<noteq> 0)"

text \<open>\<^verbatim>\<open>v || 0\<close>\<close>

definition or_zero :: "jsval \<Rightarrow> jsval" where
  "or_zero v = (if truthy v then v else Num 0)"

text \<open>\<^verbatim>\<open>v > 0\<close>: a comparison with \<^verbatim>\<open>NaN\<close> (or \<^verbatim>\<open>undefined\<close>, which converts to it) is false.\<close>

fun js_gt0 :: "jsval \<Rightarrow> bool" where
  "js_gt0 (Num n) = (0 < n)"
| "js_gt0 _ = False"

text \<open>\<^verbatim>\<open>v + d\<close> for a number \<open>d\<close>, and \<^verbatim>\<open>Math.max(0, v)\<close>.\<close>

fun js_add :: "jsval \<Rightarrow> int \<Rightarrow> jsval" where
  "js_add (Num n) d = Num (n + d)"
| "js_add _ d = NaN"


subsection \<open>Numbers to strings and back\<close>

definition digit_char :: "nat \<Rightarrow> char" where
  "digit_char d = char_of (48 + d)"

fun string_of_nat :: "nat \<Rightarrow> string" where
  "string_of_nat n =
     (if n < 10 then [digit_char n] else string_of_nat (n div 10) @ [digit_char (n mod 10)])"

declare string_of_nat.simps [simp del]

text \<open>The string a number turns into when it is assigned to a \<^verbatim>\<open>dataset\<close> entry.\<close>

fun to_string :: "jsval \<Rightarrow> string" where
  "to_string Undefined = ''undefined''"
| "to_string NaN = ''NaN''"
| "to_string (Num n) = (if n < 0 then CHR ''-'' # string_of_nat (nat (- n)) else string_of_nat (nat n))"

text \<open>
  White space as \<^verbatim>\<open>parseInt\<close> and \<^verbatim>\<open>String.prototype.trim\<close> see it, for the characters
  a \<^typ>\<open>char\<close> can hold: tab, line feed, vertical tab, form feed, carriage return, space
  and the no-break space.
\<close>

definition is_space :: "char \<Rightarrow> bool" where
  "is_space c = ((of_char c :: nat) \<in> {9, 10, 11, 12, 13, 32, 160})"

text \<open>The value of a character as a digit: \<open>0-9\<close>, then letters of either case from 10.\<close>

definition digit_of :: "char \<Rightarrow> nat option" where
  "digit_of c =
     (let k = (of_char c :: nat) in
      if 48 \<le> k \<and> k \<le> 57 then Some (k - 48)
      else if 97 \<le> k \<and> k \<le> 122 then Some (k - 87)
      else if 65 \<le> k \<and> k \<le> 90 then Some (k - 55)
      else None)"

definition radix_digit :: "nat \<Rightarrow> char \<Rightarrow> bool" where
  "radix_digit R c = (case digit_of c of Some d \<Rightarrow> d < R | None \<Rightarrow> False)"

definition digit_val :: "char \<Rightarrow> nat" where
  "digit_val c = (case digit_of c of Some d \<Rightarrow> d | None \<Rightarrow> 0)"

definition digits_value :: "nat \<Rightarrow> string \<Rightarrow> nat" where
  "digits_value R ds = foldl (\<lambda>a c. a * R + digit_val c) 0 ds"

text \<open>
  \<^verbatim>\<open>parseInt(s)\<close> with no radix argument: leading white space is skipped, one sign is
  read, a \<^verbatim>\<open>0x\<close> or \<^verbatim>\<open>0X\<close> prefix selects radix 16 (10 otherwise), the longest run of
  digits of that radix is the value, and no digit at all gives \<^verbatim>\<open>NaN\<close>.
\<close>

definition strip_sign :: "string \<Rightarrow> bool \<times> string" where
  "strip_sign s =
     (case s of
        [] \<Rightarrow> (False, [])
      | c # r \<Rightarrow> if c = CHR ''-'' then (True, r)
                 else if c = CHR ''+'' then (False, r)
                 else (False, s))"

definition strip_radix :: "string \<Rightarrow> nat \<times> string" where
  "strip_radix s =
     (if take 2 s = ''0x'' \<or> take 2 s = ''0X'' then (16, drop 2 s) else (10, s))"

definition parseInt :: "string \<Rightarrow> jsval" where
  "parseInt s =
     (let (neg, s2) = strip_sign (dropWhile is_space s);
          (R, s3) = strip_radix s2;
          ds = takeWhile (radix_digit R) s3
      in if ds = [] then NaN
         else if neg then Num (- int (digits_value R ds))
         else Num (int (digits_value R ds)))"

text \<open>\<^verbatim>\<open>s.trim()\<close>\<close>

definition trim :: "string \<Rightarrow> string" where
  "trim s = rev (dropWhile is_space (rev (dropWhile is_space s)))"

text \<open>
  \<^verbatim>\<open>xs.join(sep)\<close> on an array of strings: the result starts empty, and every element
  but the first is preceded by the separator.
\<close>

fun join_from :: "string \<Rightarrow> string \<Rightarrow> string list \<Rightarrow> string" where
  "join_from sep acc [] = acc"
| "join_from sep acc (x # xs) = join_from sep (acc @ sep @ x) xs"

definition join :: "string \<Rightarrow> string list \<Rightarrow> string" where
  "join sep xs = (case xs of [] \<Rightarrow> [] | x # r \<Rightarrow> join_from sep x r)"

section \<open>The data model\<close>

text \<open>
  \<^verbatim>\<open>ChecklistItem\<close> is the persisted form of an item. The level may be absent from
  persisted data (\<^const>\<open>Undefined\<close>); \<^verbatim>\<open>save\<close> always writes one.
\<close>

record ChecklistItem =
  "text" :: string
  checked :: bool
  level :: jsval

record ChecklistData =
  items :: "ChecklistItem list"

text \<open>
  An item element of the DOM: the \<^verbatim>\<open>innerHTML\<close> of its text field, whether its class
  list holds \<^verbatim>\<open>cdx-checklist__item--checked\<close>, its \<^verbatim>\<open>data-level\<close> attribute and
  whether its checkbox carries the \<^verbatim>\<open>no-hover\<close> class. The inline style that
  \<^verbatim>\<open>setLevel\<close> also writes is presentation only and is left out.
\<close>

record item_el =
  innerHTML :: string
  itemChecked :: bool
  dataset_level :: "string option"
  noHover :: bool

text \<open>
  The nodes an event can start from, or that can hold the focus: the text field of the
  item at a position, its checkbox container, the check mark inside that container, the
  item element itself, the wrapper, or an element outside the wrapper.
\<close>

datatype node = TextField nat | CheckboxContainer nat | CheckboxCheck nat
  | ItemEl nat | Wrapper | Outside

text \<open>What the tool asks of the host editor.\<close>

datatype host_call = BlocksInsert | CaretSetToBlock int

text \<open>
  The state of one tool instance and of the page around it: the item elements in
  document order (\<^verbatim>\<open>this.items\<close>), \<^verbatim>\<open>document.activeElement\<close>, the offset of the
  caret in the focused region, the index the host reports for the current block, and
  the calls made to the host so far.
\<close>

record checklist =
  elements :: "item_el list"
  active :: node
  caret :: nat
  block_index :: int
  host_calls :: "host_call list"

text \<open>A handler returns, or throws; the state is the one reached at that moment.\<close>

datatype result = Returned checklist | Thrown js_error checklist

fun state_of :: "result \<Rightarrow> checklist" where
  "state_of (Returned st) = st"
| "state_of (Thrown e st) = st"


subsection \<open>Helpers imported from \<^verbatim>\<open>./utils\<close>\<close>

text \<open>
  Modelled from the spec: \<^verbatim>\<open>getHTML\<close> of \<^verbatim>\<open>./utils\<close> is not among the sources. The
  text of an item is read from the live content of its region.
\<close>

definition getHTML :: "item_el \<Rightarrow> string" where
  "getHTML el = innerHTML el"

text \<open>
  Modelled from the spec: \<^verbatim>\<open>extractContentAfterCaret\<close> of \<^verbatim>\<open>./utils\<close> is not among
  the sources. Given the content of the focused region and the caret offset in it, the
  region keeps the content strictly before the caret and the fragment is the content
  strictly after it; a caret at the start gives the whole content as the fragment, a
  caret at or beyond the end gives the empty fragment. The result is the pair of the
  content left in the region and the fragment.
\<close>

definition extractContentAfterCaret :: "nat \<Rightarrow> string \<Rightarrow> string \<times> string" where
  "extractContentAfterCaret k content = (take k content, drop k content)"

text \<open>
  Modelled from the spec: \<^verbatim>\<open>fragmentToHtml\<close> of \<^verbatim>\<open>./utils\<close> is not among the sources.
  It produces the markup string of a fragment, which is the fragment's own content.
\<close>

definition fragmentToHtml :: "string \<Rightarrow> string" where
  "fragmentToHtml frag = frag"

subsection \<open>Levels\<close>

definition getLevel :: "item_el \<Rightarrow> jsval" where
  "getLevel el =
     (case dataset_level el of
        None \<Rightarrow> Num 0
      | Some s \<Rightarrow> if s \<noteq> [] then parseInt s else Num 0)"

definition setLevel :: "item_el \<Rightarrow> jsval \<Rightarrow> item_el" where
  "setLevel el lv = el\<lparr>dataset_level := Some (to_string (or_zero lv))\<rparr>"

definition createChecklistItem :: "ChecklistItem \<Rightarrow> item_el" where
  "createChecklistItem item =
     setLevel
       \<lparr>innerHTML = (if text item \<noteq> [] then text item else []),
        itemChecked = checked item,
        dataset_level = None,
        noHover = False\<rparr>
       (level item)"

subsection \<open>Finding the item of a node\<close>

text \<open>
  \<^verbatim>\<open>node.closest('.cdx-checklist__item')\<close>: the position of the item the node lies in,
  or \<open>None\<close> for \<^verbatim>\<open>null\<close>.
\<close>

definition closest_item :: "item_el list \<Rightarrow> node \<Rightarrow> nat option" where
  "closest_item its n =
     (case n of
        TextField i \<Rightarrow> if i < length its then Some i else None
      | CheckboxContainer i \<Rightarrow> if i < length its then Some i else None
      | CheckboxCheck i \<Rightarrow> if i < length its then Some i else None
      | ItemEl i \<Rightarrow> if i < length its then Some i else None
      | Wrapper \<Rightarrow> None
      | Outside \<Rightarrow> None)"



text \<open>\<^verbatim>\<open>el.remove()\<close> for the item at a position.\<close>

definition remove_at :: "nat \<Rightarrow> 'a list \<Rightarrow> 'a list" where
  "remove_at i xs = take i xs @ drop (Suc i) xs"

text \<open>\<^verbatim>\<open>wrapper.insertBefore(newItem, currentItem.nextSibling)\<close> for the item at \<open>i\<close>.\<close>

definition insert_after :: "nat \<Rightarrow> 'a \<Rightarrow> 'a list \<Rightarrow> 'a list" where
  "insert_after i x xs = take (Suc i) xs @ x # drop (Suc i) xs"

text \<open>
  Modelled from the spec: \<^verbatim>\<open>moveCaret\<close> of \<^verbatim>\<open>./utils\<close> is not among the sources. It
  places the caret in the text field of the item at a position, at the given offset:
  the start of the region after a split, and after a merge the boundary where the old
  content of the region ends and the appended content begins.
\<close>

definition moveCaret :: "checklist \<Rightarrow> nat \<Rightarrow> nat \<Rightarrow> checklist" where
  "moveCaret st i offset = st\<lparr>active := TextField i, caret := offset\<rparr>"

section \<open>The operations of the tool\<close>

subsection \<open>Conversion, loading, saving and validation\<close>

text \<open>\<^verbatim>\<open>conversionConfig.export\<close> and \<^verbatim>\<open>conversionConfig.import\<close>\<close>

definition export :: "ChecklistData \<Rightarrow> string" where
  "export data = join ''. '' (map text (items data))"


text \<open>
  \<^verbatim>\<open>render\<close>, as far as the model goes: its argument is \<^verbatim>\<open>this.data.items\<close>, \<open>None\<close>
  when the data has no such field. An array, also an empty one, is truthy.
\<close>

definition render :: "ChecklistItem list option \<Rightarrow> item_el list" where
  "render data_items =
     (let its = (case data_items of
                   None \<Rightarrow> [\<lparr>text = [], checked = False, level = Num 0\<rparr>]
                 | Some xs \<Rightarrow> xs)
      in map createChecklistItem its)"

text \<open>What \<^verbatim>\<open>save\<close> reads from one item element (the function it maps over the items).\<close>

definition read_item :: "item_el \<Rightarrow> ChecklistItem" where
  "read_item itemEl =
     \<lparr>text = getHTML itemEl, checked = itemChecked itemEl, level = getLevel itemEl\<rparr>"

definition save :: "checklist \<Rightarrow> ChecklistData" where
  "save st =
     (let its = map read_item (elements st)
      in \<lparr>items = filter (\<lambda>item. length (trim (text item)) \<noteq> 0) its\<rparr>)"


subsection \<open>Event handlers\<close>


text \<open>
  \<^verbatim>\<open>enterPressed\<close> finds its item from \<^verbatim>\<open>document.activeElement\<close>. With no item
  there, \<^verbatim>\<open>getLevel(null)\<close> reads a property of \<^verbatim>\<open>null\<close>. The source tests the level
  and, inside that test, the emptiness of the text; the two tests are one conjunction
  here. The content that is split is that of the current item's region, where the
  caret is. When the last item is removed the focus leaves the checklist, and it is
  the host that places the caret in another block.
\<close>

definition enterPressed :: "checklist \<Rightarrow> result" where
  "enterPressed st =
     (let its = elements st in
      case closest_item its (active st) of
        None \<Rightarrow> Thrown TypeError st
      | Some i \<Rightarrow>
          let currentItem = its ! i;
              isLastItem = (int i = int (length its) - 1);
              itemLevel = getLevel currentItem
          in if js_gt0 itemLevel \<and> length (getHTML currentItem) = 0
             then Returned (st\<lparr>elements := its[i := setLevel currentItem (js_add itemLevel (- 1))]\<rparr>)
             else if isLastItem \<and> length (getHTML currentItem) = 0
             then Returned (st\<lparr>elements := remove_at i its,
                               active := Outside,
                               host_calls := host_calls st @
                                 [BlocksInsert, CaretSetToBlock (block_index st + 1)]\<rparr>)
             else
               let (before, fragmentAfterCaret) =
                     extractContentAfterCaret (caret st) (innerHTML currentItem);
                   htmlAfterCaret = fragmentToHtml fragmentAfterCaret;
                   newItem = createChecklistItem
                     \<lparr>text = htmlAfterCaret, checked = False, level = itemLevel\<rparr>
               in Returned (moveCaret
                     (st\<lparr>elements :=
                          insert_after i newItem (its[i := currentItem\<lparr>innerHTML := before\<rparr>])\<rparr>)
                     (Suc i) 0))"





section \<open>Invariants\<close>



section \<open>Example states\<close>

text \<open>
  The tool as \<^const>\<open>render\<close> builds it from saved items, with the focus and the caret
  placed, in a document where the host reports block index 3.
\<close>

definition rendered :: "ChecklistItem list \<Rightarrow> node \<Rightarrow> nat \<Rightarrow> checklist" where
  "rendered xs focus offset =
     \<lparr>elements = render (Some xs), active = focus, caret = offset,
      block_index = 3, host_calls = []\<rparr>"

section \<open>Decimal strings parse back to their number\<close>


lemma of_char_digit_char: "d < 10 \<Longrightarrow> (of_char (digit_char d) :: nat) = 48 + d"
  by (simp add: digit_char_def)

lemma digit_of_digit_char: "d < 10 \<Longrightarrow> digit_of (digit_char d) = Some d"
  by (simp add: digit_of_def of_char_digit_char)

lemma radix_digit_digit_char: "d < 10 \<Longrightarrow> radix_digit 10 (digit_char d)"
  by (simp add: radix_digit_def digit_of_digit_char)

lemma digit_val_digit_char: "d < 10 \<Longrightarrow> digit_val (digit_char d) = d"
  by (simp add: digit_val_def digit_of_digit_char)

lemma string_of_nat_digits: "c \<in> set (string_of_nat n) \<Longrightarrow> \<exists>d<10. c = digit_char d"
proof (induction n rule: string_of_nat.induct)
  case (1 n)
  show ?case
  proof (cases "n < 10")
    case True
    with "1.prems" show ?thesis by (auto simp: string_of_nat.simps [of n])
  next
    case False
    with "1.prems" have "c \<in> set (string_of_nat (n div 10)) \<or> c = digit_char (n mod 10)"
      by (auto simp: string_of_nat.simps [of n])
    with False "1.IH" show ?thesis by (metis mod_less_divisor zero_less_numeral)
  qed
qed

lemma string_of_nat_not_Nil: "string_of_nat n \<noteq> []"
  by (subst string_of_nat.simps) simp

lemma digits_value_snoc: "digits_value R (ds @ [c]) = digits_value R ds * R + digit_val c"
  by (simp add: digits_value_def)

lemma digits_value_string_of_nat: "digits_value 10 (string_of_nat n) = n"
proof (induction n rule: string_of_nat.induct)
  case (1 n)
  show ?case
  proof (cases "n < 10")
    case True
    then show ?thesis
      by (simp add: string_of_nat.simps [of n] digits_value_def digit_val_digit_char)
  next
    case False
    with "1.IH" show ?thesis
      by (simp add: string_of_nat.simps [of n] digits_value_snoc digit_val_digit_char)
  qed
qed

lemma takeWhile_string_of_nat:
  "takeWhile (radix_digit 10) (string_of_nat n) = string_of_nat n"
  by (rule takeWhile_eq_all_conv [THEN iffD2]) (auto dest!: string_of_nat_digits simp: radix_digit_digit_char)

lemma digit_char_not_space: "d < 10 \<Longrightarrow> \<not> is_space (digit_char d)"
  by (simp add: is_space_def of_char_digit_char)

lemma digit_char_not_sign:
  assumes "d < 10"
  shows "digit_char d \<noteq> CHR ''-''" "digit_char d \<noteq> CHR ''+''"
    "digit_char d \<noteq> CHR ''x''" "digit_char d \<noteq> CHR ''X''"
  using assms of_char_digit_char [OF assms] by auto

lemma string_of_nat_cases:
  obtains d r where "string_of_nat n = digit_char d # r" "d < 10"
proof -
  obtain c r where cr: "string_of_nat n = c # r"
    using string_of_nat_not_Nil [of n] by (cases "string_of_nat n") auto
  then have "c \<in> set (string_of_nat n)" by simp
  then obtain d where "d < 10" "c = digit_char d"
    using string_of_nat_digits by blast
  with cr that show thesis by blast
qed

lemma dropWhile_space_string_of_nat:
  "dropWhile is_space (string_of_nat n) = string_of_nat n"
  by (rule string_of_nat_cases [of n]) (simp add: digit_char_not_space)

lemma strip_sign_string_of_nat:
  "strip_sign (string_of_nat n) = (False, string_of_nat n)"
proof (rule string_of_nat_cases [of n])
  fix d r assume s: "string_of_nat n = digit_char d # r" and d: "d < 10"
  have "digit_char d \<noteq> CHR ''-''" "digit_char d \<noteq> CHR ''+''"
    using d by (rule digit_char_not_sign)+
  with s show ?thesis by (simp add: strip_sign_def)
qed

lemma no_x_in_string_of_nat:
  "CHR ''x'' \<notin> set (string_of_nat n)" "CHR ''X'' \<notin> set (string_of_nat n)"
  by (auto dest!: string_of_nat_digits simp: digit_char_not_sign(3,4) [symmetric])

lemma strip_radix_string_of_nat:
  "strip_radix (string_of_nat n) = (10, string_of_nat n)"
proof -
  have "take 2 (string_of_nat n) \<noteq> ''0x''"
  proof
    assume "take 2 (string_of_nat n) = ''0x''"
    then have "CHR ''x'' \<in> set (take 2 (string_of_nat n))" by simp
    then show False using no_x_in_string_of_nat(1) [of n] by (blast dest: in_set_takeD)
  qed
  moreover have "take 2 (string_of_nat n) \<noteq> ''0X''"
  proof
    assume "take 2 (string_of_nat n) = ''0X''"
    then have "CHR ''X'' \<in> set (take 2 (string_of_nat n))" by simp
    then show False using no_x_in_string_of_nat(2) [of n] by (blast dest: in_set_takeD)
  qed
  ultimately show ?thesis by (simp add: strip_radix_def)
qed

lemma parseInt_string_of_nat: "parseInt (string_of_nat n) = Num (int n)"
  by (simp add: parseInt_def dropWhile_space_string_of_nat strip_sign_string_of_nat
      strip_radix_string_of_nat takeWhile_string_of_nat string_of_nat_not_Nil
      digits_value_string_of_nat)

lemma parseInt_minus_string_of_nat:
  "parseInt (CHR ''-'' # string_of_nat n) = Num (- int n)"
  by (simp add: parseInt_def is_space_def strip_sign_def
      strip_radix_string_of_nat takeWhile_string_of_nat string_of_nat_not_Nil
      digits_value_string_of_nat)

lemma parseInt_to_string: "parseInt (to_string (Num n)) = Num n"
  by (simp add: parseInt_string_of_nat parseInt_minus_string_of_nat)

lemma to_string_not_Nil: "to_string v \<noteq> []"
  by (cases v) (simp_all add: string_of_nat_not_Nil)


lemma getLevel_setLevel: "getLevel (setLevel el v) = or_zero v"
proof -
  have "\<exists>n. or_zero v = Num n"
    by (cases v) (simp_all add: or_zero_def)
  then obtain n where "or_zero v = Num n" ..
  then show ?thesis
    by (simp add: getLevel_def setLevel_def to_string_not_Nil parseInt_to_string
      del: to_string.simps)
qed

section \<open>Joining strings\<close>

lemma join_from_concat: "join_from sep acc xs = acc @ concat (map (\<lambda>x. sep @ x) xs)"
  by (induction xs arbitrary: acc) simp_all

lemma join_Cons: "join sep (x # xs) = x @ concat (map (\<lambda>y. sep @ y) xs)"
  by (simp add: join_def join_from_concat)

lemma join_Cons_Cons: "join sep (x # y # r) = x @ sep @ join sep (y # r)"
  by (simp add: join_Cons)

section \<open>Elements, lists of elements and levels\<close>

lemma read_item_createChecklistItem:
  "read_item (createChecklistItem item) = item\<lparr>level := or_zero (level item)\<rparr>"
  by (simp add: read_item_def createChecklistItem_def getHTML_def getLevel_setLevel)
     (simp add: setLevel_def)

lemma getLevel_createChecklistItem:
  "getLevel (createChecklistItem item) = or_zero (level item)"
  by (simp add: createChecklistItem_def getLevel_setLevel)


lemma butlast_take_last: "Suc i = length xs \<Longrightarrow> butlast xs = take i xs"
  by (metis butlast_conv_take diff_Suc_1)

lemma remove_at_last: "Suc i = length xs \<Longrightarrow> remove_at i xs = butlast xs"
  by (simp add: remove_at_def butlast_take_last)












section \<open>What each handler does\<close>



lemma enterPressed_exit:
  assumes "closest_item (elements st) (active st) = Some i"
    and "Suc i = length (elements st)"
    and "getLevel (elements st ! i) = Num l" "l \<le> 0"
    and "getHTML (elements st ! i) = []"
  shows "enterPressed st =
    Returned (st\<lparr>elements := remove_at i (elements st),
                active := Outside,
                host_calls := host_calls st @
                  [BlocksInsert, CaretSetToBlock (block_index st + 1)]\<rparr>)"
proof -
  have "int i = int (length (elements st)) - 1"
    using assms(2) by simp
  then show ?thesis
    using assms by (simp add: enterPressed_def Let_def)
qed







section \<open>The handlers keep levels from going negative\<close>







section \<open>Reading the example states\<close>

lemma rendered_simps:
  "elements (rendered xs focus offset) = map createChecklistItem xs"
  "active (rendered xs focus offset) = focus"
  "caret (rendered xs focus offset) = offset"
  "block_index (rendered xs focus offset) = 3"
  "host_calls (rendered xs focus offset) = []"
  by (simp_all add: rendered_def render_def)

lemma innerHTML_createChecklistItem: "innerHTML (createChecklistItem item) = text item"
  by (simp add: createChecklistItem_def setLevel_def)

lemma getHTML_createChecklistItem: "getHTML (createChecklistItem item) = text item"
  by (simp add: getHTML_def innerHTML_createChecklistItem)

lemma trim_examples: "trim ''a b '' = ''a b''" "trim ''  '' = []" "trim [] = []"
  by (simp_all add: trim_def is_space_def)

section \<open>The claims about Enter\<close>





text \<open>
  C3. An Enter key press on the last item, when its text is empty and its level is 0,
  removes that item and creates none, and asks the host to insert a new block and to
  move the caret to the block after the checklist's own index.
\<close>

theorem enter_empty_last_exits:
  assumes cur: "closest_item (elements st) (active st) = Some i"
    and last: "Suc i = length (elements st)"
    and lvl: "getLevel (elements st ! i) = Num 0"
    and empty: "getHTML (elements st ! i) = []"
  shows "enterPressed st =
           Returned (st\<lparr>elements := butlast (elements st),
                       active := Outside,
                       host_calls := host_calls st @
                         [BlocksInsert, CaretSetToBlock (block_index st + 1)]\<rparr>)
       \<and> elements (state_of (enterPressed st)) = take i (elements st)
       \<and> length (elements (state_of (enterPressed st))) = length (elements st) - 1
       \<and> host_calls (state_of (enterPressed st)) =
           host_calls st @ [BlocksInsert, CaretSetToBlock (block_index st + 1)]"
proof -
  have "enterPressed st =
      Returned (st\<lparr>elements := remove_at i (elements st),
                  active := Outside,
                  host_calls := host_calls st @
                    [BlocksInsert, CaretSetToBlock (block_index st + 1)]\<rparr>)"
    using cur last lvl _ empty by (rule enterPressed_exit) simp
  moreover have "remove_at i (elements st) = butlast (elements st)"
    using last by (rule remove_at_last)
  moreover have "butlast (elements st) = take i (elements st)"
    using last by (rule butlast_take_last)
  ultimately show ?thesis
    using last by simp
qed

theorem enter_empty_last_exits_witness:
  "map read_item (elements (state_of (enterPressed
      (rendered [\<lparr>text = ''a'', checked = False, level = Num 0\<rparr>,
                 \<lparr>text = [], checked = False, level = Num 0\<rparr>] (TextField 1) 0))))
     = [\<lparr>text = ''a'', checked = False, level = Num 0\<rparr>]
   \<and> host_calls (state_of (enterPressed
      (rendered [\<lparr>text = ''a'', checked = False, level = Num 0\<rparr>,
                 \<lparr>text = [], checked = False, level = Num 0\<rparr>] (TextField 1) 0)))
     = [BlocksInsert, CaretSetToBlock 4]"
proof -
  let ?st = "rendered [\<lparr>text = ''a'', checked = False, level = Num 0\<rparr>,
                       \<lparr>text = [], checked = False, level = Num 0\<rparr>] (TextField 1) 0"
  have h1: "closest_item (elements ?st) (active ?st) = Some 1"
    by (simp add: rendered_simps closest_item_def)
  have h2: "Suc 1 = length (elements ?st)"
    by (simp add: rendered_simps)
  have h3: "getLevel (elements ?st ! 1) = Num 0"
    by (simp add: rendered_simps getLevel_createChecklistItem or_zero_def)
  have h4: "getHTML (elements ?st ! 1) = []"
    by (simp add: rendered_simps getHTML_createChecklistItem)
  show ?thesis
    using enter_empty_last_exits [OF h1 h2 h3 h4]
    by (simp add: rendered_simps read_item_createChecklistItem or_zero_def)
qed




section \<open>The claims about saving, loading, validation and conversion\<close>

text \<open>
  C5. For every state of the model, \<^verbatim>\<open>save\<close> returns no item whose trimmed text is
  empty, whatever the live state holds. The items it returns are those read from the
  elements whose trimmed text is not empty, in the order of the model and with the
  text, checked flag and level read from the element.
\<close>

theorem save_filters_empties:
  "(\<forall>item \<in> set (items (save st)). trim (text item) \<noteq> [])
   \<and> subseq (items (save st)) (map read_item (elements st))
   \<and> (\<forall>el \<in> set (elements st). trim (getHTML el) \<noteq> [] \<longrightarrow> read_item el \<in> set (items (save st)))
   \<and> items (save st) = map read_item (filter (\<lambda>el. trim (getHTML el) \<noteq> []) (elements st))"
proof -
  have eq: "items (save st) = filter (\<lambda>item. trim (text item) \<noteq> []) (map read_item (elements st))"
    by (simp add: save_def)
  have 1: "\<forall>item \<in> set (items (save st)). trim (text item) \<noteq> []"
    by (simp add: eq)
  have 2: "subseq (items (save st)) (map read_item (elements st))"
    by (simp add: eq)
  have 3: "\<forall>el \<in> set (elements st). trim (getHTML el) \<noteq> [] \<longrightarrow> read_item el \<in> set (items (save st))"
    by (simp add: eq read_item_def)
  have 4: "items (save st) = map read_item (filter (\<lambda>el. trim (getHTML el) \<noteq> []) (elements st))"
    by (simp add: eq filter_map o_def read_item_def)
  from 1 2 3 4 show ?thesis by blast
qed

theorem save_filters_empties_witness:
  "items (save (rendered [\<lparr>text = ''a b '', checked = True, level = Num 1\<rparr>,
                          \<lparr>text = ''  '', checked = False, level = Num 0\<rparr>,
                          \<lparr>text = [], checked = False, level = Num 2\<rparr>] Outside 0))
     = [\<lparr>text = ''a b '', checked = True, level = Num 1\<rparr>]"
proof -
  let ?st = "rendered [\<lparr>text = ''a b '', checked = True, level = Num 1\<rparr>,
                       \<lparr>text = ''  '', checked = False, level = Num 0\<rparr>,
                       \<lparr>text = [], checked = False, level = Num 2\<rparr>] Outside 0"
  from save_filters_empties [of ?st]
  have "items (save ?st) = map read_item (filter (\<lambda>el. trim (getHTML el) \<noteq> []) (elements ?st))"
    by (rule conjunct2 [THEN conjunct2, THEN conjunct2])
  then show ?thesis
    by (simp add: rendered_simps getHTML_createChecklistItem trim_examples
        read_item_createChecklistItem or_zero_def)
qed

text \<open>
  C6, as the code has it. Rendering data that has no \<^verbatim>\<open>items\<close> field yields exactly
  one item, which reads as the empty text, not checked, at level 0. When the field is
  there, its items are materialised in the given order, an absent level read as 0; an
  empty array gives an empty model.
\<close>

theorem render_absent_or_given:
  "render None = [createChecklistItem \<lparr>text = [], checked = False, level = Num 0\<rparr>]
   \<and> map read_item (render None) = [\<lparr>text = [], checked = False, level = Num 0\<rparr>]
   \<and> render (Some xs) = map createChecklistItem xs
   \<and> map read_item (render (Some xs)) = map (\<lambda>item. item\<lparr>level := or_zero (level item)\<rparr>) xs
   \<and> length (render (Some xs)) = length xs"
  by (simp add: render_def read_item_createChecklistItem o_def) (simp add: or_zero_def)

text \<open>Rendering an empty array of items does not produce the single default item.\<close>

theorem render_empty_array_counterexample:
  "render (Some []) = [] \<and> length (render (Some [])) \<noteq> 1 \<and> render (Some []) \<noteq> render None"
  by (simp add: render_def)


text \<open>
  C9. \<^verbatim>\<open>export\<close> returns the texts of the items, in item order, with the two
  characters \<open>. \<close> between neighbours; the checked flags and the levels do not matter;
  and the texts \<open>a\<close> and \<open>b\<close> export to \<open>a. b\<close>.
\<close>

theorem export_joins_texts:
  "export \<lparr>items = []\<rparr> = []
   \<and> export \<lparr>items = [x]\<rparr> = text x
   \<and> export \<lparr>items = x # y # r\<rparr> = text x @ ''. '' @ export \<lparr>items = y # r\<rparr>
   \<and> export \<lparr>items = x # r\<rparr> = text x @ concat (map (\<lambda>item. ''. '' @ text item) r)
   \<and> export \<lparr>items = map (\<lambda>item. item\<lparr>checked := c item, level := l item\<rparr>) xs\<rparr>
       = export \<lparr>items = xs\<rparr>
   \<and> export \<lparr>items = [\<lparr>text = ''a'', checked = ca, level = la\<rparr>,
                        \<lparr>text = ''b'', checked = cb, level = lb\<rparr>]\<rparr> = ''a. b''"
proof -
  have "map text (map (\<lambda>item. item\<lparr>checked := c item, level := l item\<rparr>) xs) = map text xs"
    by (induction xs) simp_all
  then show ?thesis
    by (simp add: export_def join_Cons o_def) (simp add: join_def)
qed

section \<open>The claim about levels\<close>



section \<open>The claim about the storage of levels\<close>



end
